theory Spec2Isabelle
  imports Main "HOL-Library.AList" "HOL-Library.Char_ord" "HOL-Library.List_Lexorder"
    "HOL-Library.Word"
begin

unbundle bit_operations_syntax

section \<open>The databox client: data model\<close>

text \<open>
  The development follows \<^verbatim>\<open>src/databox.go\<close>. Go values are modelled as follows.

  \<^item> A \<^verbatim>\<open>float32\<close> is its IEEE-754 bit pattern, a 32-bit word. The client never
    computes with a metric value: it copies it, and \<^verbatim>\<open>json.Marshal\<close> refuses the
    patterns that stand for NaN and the infinities.
  \<^item> A Go map is the list of its entries, in the order in which \<^verbatim>\<open>range\<close> visits
    them. Go fixes no iteration order, so one map has many such lists; all of them have
    pairwise distinct keys, and their content is read with \<^const>\<open>map_of\<close>.
    An assignment \<^verbatim>\<open>m[k] = v\<close> is \<^const>\<open>AList.update\<close>.
  \<^item> An \<^verbatim>\<open>interface{}\<close> value is a value of the type \<open>any\<close> below.
\<close>

type_synonym float32 = "32 word"

type_synonym float64 = "64 word"

type_synonym bytes = string

datatype any =
    VNil
  | VBool bool
  | VInt int
  | VFloat32 float32
  | VFloat64 float64
  | VString string
  | VSlice "any list"
  | VMap "(string \<times> any) list"
  | VUnsupported \<comment> \<open>a channel, function or complex number: \<^verbatim>\<open>json.Marshal\<close> rejects it\<close>

text \<open>\<^verbatim>\<open>map[string]interface{}\<close>, the type of a serialized record.\<close>

type_synonym payload = "(string \<times> any) list"

text \<open>The struct \<^verbatim>\<open>KPI\<close> (lines 36-55).\<close>

record KPI =
  Key :: string
  Value :: float32
  Metrics :: "(string \<times> float32) list"
  Date :: string
  Unit :: string
  Attributes :: "(string \<times> any) list"

text \<open>A record is well formed when both of its maps have distinct keys, as every Go map has.\<close>

definition wf_KPI :: "KPI \<Rightarrow> bool" where
  "wf_KPI kpi \<longleftrightarrow> distinct (map fst (Metrics kpi)) \<and> distinct (map fst (Attributes kpi))"

section \<open>Serializing one record\<close>

text \<open>
  \<^verbatim>\<open>ToJSONData\<close> (lines 257-282). Each \<^verbatim>\<open>for ... range\<close> loop is a \<^const>\<open>fold\<close> over the
  entries of the map in iteration order.
\<close>

definition ToJSONData :: "KPI \<Rightarrow> payload" where
  "ToJSONData kpi =
    (let payload = [];
         payload = fold (\<lambda>(key, value) p. AList.update key value p) (Attributes kpi) payload;
         payload = fold (\<lambda>(key, value) p. AList.update (''$'' @ key) (VFloat32 value) p)
                     (Metrics kpi) payload;
         payload = (if Key kpi \<noteq> '''' then AList.update (''$'' @ Key kpi) (VFloat32 (Value kpi)) payload
                    else payload);
         payload = (if Date kpi \<noteq> '''' then AList.update ''date'' (VString (Date kpi)) payload
                    else payload);
         payload = (if Unit kpi \<noteq> '''' then AList.update ''unit'' (VString (Unit kpi)) payload
                    else payload)
     in payload)"

text \<open>
  The entry a metric leaves in the output: the metrics map read at a key of the output.
  Only a key that starts with \<open>$\<close> can come from a metric.
\<close>

definition metric_at :: "(string \<times> float32) list \<Rightarrow> string \<Rightarrow> any option" where
  "metric_at ms x =
    (case x of [] \<Rightarrow> None
     | c # n \<Rightarrow> if c = CHR ''$'' then map_option VFloat32 (map_of ms n) else None)"

section \<open>JSON documents and \<^verbatim>\<open>encoding/json\<close>\<close>

text \<open>
  A JSON text is kept as its syntax tree. A number is named by the Go value it is the
  formatting of (the digits are those of \<^verbatim>\<open>strconv\<close>), or by its literal when it was
  read from a response. The members of an object are kept in the order of the text.
\<close>

datatype number = NInt int | NFloat32 float32 | NFloat64 float64 | NLiteral string

datatype json =
    JNull
  | JBool bool
  | JNumber number
  | JString string
  | JArray "json list"
  | JObject "(string \<times> json) list"

text \<open>The errors of \<^verbatim>\<open>encoding/json\<close> that the client can meet.\<close>

datatype json_error =
    SyntaxError \<comment> \<open>the bytes are not a JSON text\<close>
  | UnmarshalTypeError \<comment> \<open>a JSON value does not fit the Go type it is stored in\<close>
  | UnsupportedTypeError
  | UnsupportedValueError

text \<open>
  Go errors. \<open>ErrorString s\<close> is \<^verbatim>\<open>errors.New(s)\<close>, whose text is \<open>s\<close>;
  \<open>WrapError p e\<close> is \<^verbatim>\<open>fmt.Errorf(p + "%w", e)\<close>, whose text is \<open>p\<close> followed by the
  text of \<open>e\<close>; \<open>NetError m\<close> is an error of the HTTP exchange (connection, timeout,
  cancellation, a failed read of the body) with the text \<open>m\<close> that the transport gave it.
\<close>

datatype error =
    ErrorString string
  | WrapError string error
  | NetError string
  | JSONError json_error

fun rootCause :: "error \<Rightarrow> error" where
  "rootCause (WrapError p e) = rootCause e"
| "rootCause e = e"

definition isTransportError :: "error \<Rightarrow> bool" where
  "isTransportError e = (case rootCause e of NetError m \<Rightarrow> True | _ \<Rightarrow> False)"

definition isDecodeError :: "error \<Rightarrow> bool" where
  "isDecodeError e =
    (rootCause e = JSONError SyntaxError \<or> rootCause e = JSONError UnmarshalTypeError)"

text \<open>
  The outcome of a call: a value, an error, or a run-time panic (a nil pointer
  dereference is the only one that can happen here).
\<close>

datatype 'a result = Ok 'a | Err error | Panic

text \<open>The first error of a list of outcomes, or all its values.\<close>

fun sequence :: "('e + 'a) list \<Rightarrow> 'e + 'a list" where
  "sequence [] = Inr []"
| "sequence (x # xs) =
    (case x of Inl e \<Rightarrow> Inl e
     | Inr v \<Rightarrow> (case sequence xs of Inl e \<Rightarrow> Inl e | Inr vs \<Rightarrow> Inr (v # vs)))"

text \<open>
  \<^verbatim>\<open>json.Marshal\<close> refuses a float that is NaN or infinite: its exponent bits are all
  ones.
\<close>

definition isFinite32 :: "float32 \<Rightarrow> bool" where
  "isFinite32 f \<longleftrightarrow> drop_bit 23 f AND 0xFF \<noteq> 0xFF"

definition isFinite64 :: "float64 \<Rightarrow> bool" where
  "isFinite64 f \<longleftrightarrow> drop_bit 52 f AND 0x7FF \<noteq> 0x7FF"

text \<open>
  \<^verbatim>\<open>json.Marshal\<close> of an \<^verbatim>\<open>interface{}\<close> value. A map is written with its keys
  sorted, whatever its iteration order.
\<close>

fun marshal_any :: "any \<Rightarrow> json_error + json" where
  "marshal_any VNil = Inr JNull"
| "marshal_any (VBool b) = Inr (JBool b)"
| "marshal_any (VInt i) = Inr (JNumber (NInt i))"
| "marshal_any (VFloat32 f) =
    (if isFinite32 f then Inr (JNumber (NFloat32 f)) else Inl UnsupportedValueError)"
| "marshal_any (VFloat64 f) =
    (if isFinite64 f then Inr (JNumber (NFloat64 f)) else Inl UnsupportedValueError)"
| "marshal_any (VString s) = Inr (JString s)"
| "marshal_any (VSlice xs) = map_sum id JArray (sequence (map marshal_any xs))"
| "marshal_any (VMap kvs) =
    map_sum id JObject
      (sequence (map (\<lambda>(k, v). map_sum id (Pair k) (marshal_any v)) (sort_key fst kvs)))"
| "marshal_any VUnsupported = Inl UnsupportedTypeError"

text \<open>\<^verbatim>\<open>json.Marshal\<close> of a non-nil \<^verbatim>\<open>map[string]interface{}\<close>.\<close>

definition marshal_payload :: "payload \<Rightarrow> json_error + json" where
  "marshal_payload m = marshal_any (VMap m)"

section \<open>The envelope\<close>

text \<open>
  The struct \<^verbatim>\<open>KPIWrap\<close> (lines 58-61). A slice and a map can be nil, which
  \<^verbatim>\<open>json.Marshal\<close> tells from empty: \<open>None\<close> is nil.
\<close>

record KPIWrap =
  Data :: "payload list option"
  Meta :: "payload option"

text \<open>Go's \<^verbatim>\<open>append\<close> of one element: the result is never nil.\<close>

definition append_slice :: "'a list option \<Rightarrow> 'a \<Rightarrow> 'a list option" where
  "append_slice s x = Some ((case s of None \<Rightarrow> [] | Some xs \<Rightarrow> xs) @ [x])"

text \<open>
  \<^verbatim>\<open>json.Marshal\<close> of a \<^verbatim>\<open>KPIWrap\<close>, by its field tags: \<open>data\<close> always, a nil
  slice as \<open>null\<close>; \<open>meta\<close> with \<^verbatim>\<open>omitempty\<close>, so left out when the map is nil or has
  no entry.
\<close>

definition json_Marshal_KPIWrap :: "KPIWrap \<Rightarrow> json_error + json" where
  "json_Marshal_KPIWrap w =
    (case (case Data w of None \<Rightarrow> Inr JNull
           | Some ds \<Rightarrow> map_sum id JArray (sequence (map marshal_payload ds))) of
       Inl e \<Rightarrow> Inl e
     | Inr data \<Rightarrow>
        (case Meta w of
           None \<Rightarrow> Inr (JObject [(''data'', data)])
         | Some m \<Rightarrow>
            if m = [] then Inr (JObject [(''data'', data)])
            else (case marshal_payload m of
                    Inl e \<Rightarrow> Inl e
                  | Inr meta \<Rightarrow> Inr (JObject [(''data'', data), (''meta'', meta)]))))"

text \<open>\<^verbatim>\<open>serializeKPIs\<close> (lines 285-300).\<close>

definition serializeKPIs :: "KPI list \<Rightarrow> bool \<Rightarrow> error + json" where
  "serializeKPIs kpis forcePush =
    (let wrap = \<lparr>Data = Some [], Meta = None\<rparr>;
         wrap = (if forcePush then wrap\<lparr>Meta := Some [(''ensure_unique'', VBool True)]\<rparr>
                 else wrap);
         wrap = fold (\<lambda>kpi w. w\<lparr>Data := append_slice (Data w) (ToJSONData kpi)\<rparr>) kpis wrap
     in map_sum JSONError id (json_Marshal_KPIWrap wrap))"

text \<open>
  A value is encodable when \<^verbatim>\<open>json.Marshal\<close> accepts it. A record is encodable when its
  value and its metrics are finite numbers and its attributes are encodable: what the
  client can put into a JSON text.
\<close>

definition encodable :: "any \<Rightarrow> bool" where
  "encodable v = (case marshal_any v of Inl e \<Rightarrow> False | Inr j \<Rightarrow> True)"

definition encodable_KPI :: "KPI \<Rightarrow> bool" where
  "encodable_KPI kpi \<longleftrightarrow>
     isFinite32 (Value kpi) \<and> list_all (\<lambda>(key, value). isFinite32 value) (Metrics kpi)
     \<and> list_all (\<lambda>(key, value). encodable value) (Attributes kpi)"

section \<open>Decoding a response\<close>

text \<open>The struct \<^verbatim>\<open>ResponseStatus\<close> (lines 64-68).\<close>

record ResponseStatus =
  ID :: string
  Type :: string
  Message :: string

text \<open>
  The grammar of JSON is not part of the client: the functions below take \<open>parse\<close>, which
  gives the syntax tree of a byte string, or \<open>None\<close> when the bytes are not a JSON text.

  What \<^verbatim>\<open>json.Unmarshal\<close> does with the tree is modelled for the target
  \<^verbatim>\<open>**ResponseStatus\<close>, the type of \<^verbatim>\<open>&responseStatus\<close> at lines 130, 223 and 249.
  A member of an object goes to the field whose tag matches its key, case folded; a
  string is stored, \<open>null\<close> leaves the field as it is, any other value is a type error, and
  decoding goes on to the next member. A key that matches no field is skipped.
\<close>

definition toUpper :: "char \<Rightarrow> char" where
  "toUpper c =
    (if CHR ''a'' \<le> c \<and> c \<le> CHR ''z'' then char_of (of_char c - (32 :: nat)) else c)"

text \<open>
  The folding under which \<^verbatim>\<open>encoding/json\<close> compares a key with a field name: ASCII
  letters lose their case, and the two non-ASCII runes that fold to an ASCII letter, the
  long s (bytes C5 BF) and the Kelvin sign (bytes E2 84 AA), become \<open>S\<close> and \<open>K\<close>.
\<close>

fun foldName :: "string \<Rightarrow> string" where
  "foldName [] = []"
| "foldName (c # cs) =
    (if c = CHR 0xC5 \<and> take 1 cs = [CHR 0xBF] then CHR ''S'' # foldName (drop 1 cs)
     else if c = CHR 0xE2 \<and> take 2 cs = [CHR 0x84, CHR 0xAA] then CHR ''K'' # foldName (drop 2 cs)
     else toUpper c # foldName cs)"

text \<open>A JSON value stored into a Go string that holds \<open>old\<close>; \<open>None\<close> is a type error.\<close>

fun storeString :: "json \<Rightarrow> string \<Rightarrow> string option" where
  "storeString (JString s) old = Some s"
| "storeString JNull old = Some old"
| "storeString j old = None"

text \<open>
  One member of an object stored into the struct. The flag tells whether every member
  so far had a fitting type.
\<close>

definition storeMember :: "string \<times> json \<Rightarrow> ResponseStatus \<times> bool \<Rightarrow> ResponseStatus \<times> bool" where
  "storeMember kv acc =
    (let (key, j) = kv; (rs, ok) = acc; name = foldName key in
     if name = foldName ''id'' then
       (case storeString j (ID rs) of None \<Rightarrow> (rs, False) | Some s \<Rightarrow> (rs\<lparr>ID := s\<rparr>, ok))
     else if name = foldName ''type'' then
       (case storeString j (Type rs) of None \<Rightarrow> (rs, False) | Some s \<Rightarrow> (rs\<lparr>Type := s\<rparr>, ok))
     else if name = foldName ''message'' then
       (case storeString j (Message rs) of None \<Rightarrow> (rs, False)
        | Some s \<Rightarrow> (rs\<lparr>Message := s\<rparr>, ok))
     else (rs, ok))"

text \<open>
  A syntax tree stored through a pointer to a pointer to the struct \<open>rs\<close>. The JSON
  \<open>null\<close> sets the inner pointer to nil: the result \<open>None\<close>.
\<close>

definition unmarshalResponseStatus :: "json \<Rightarrow> ResponseStatus \<Rightarrow> json_error + ResponseStatus option" where
  "unmarshalResponseStatus j rs =
    (case j of
       JNull \<Rightarrow> Inr None
     | JObject members \<Rightarrow>
        (let (rs', ok) = fold storeMember members (rs, True)
         in if ok then Inr (Some rs') else Inl UnmarshalTypeError)
     | _ \<Rightarrow> Inl UnmarshalTypeError)"

text \<open>
  \<^verbatim>\<open>json.Unmarshal(data, &responseStatus)\<close> with \<^verbatim>\<open>responseStatus = &ResponseStatus{}\<close>.
\<close>

definition json_Unmarshal_ResponseStatus :: "(bytes \<Rightarrow> json option) \<Rightarrow> bytes \<Rightarrow> json_error + ResponseStatus option" where
  "json_Unmarshal_ResponseStatus parse data =
    (case parse data of
       None \<Rightarrow> Inl SyntaxError
     | Some j \<Rightarrow> unmarshalResponseStatus j \<lparr>ID = '''', Type = '''', Message = ''''\<rparr>)"

text \<open>
  The structs \<^verbatim>\<open>PushRequest\<close>, \<^verbatim>\<open>PushResponse\<close> and \<^verbatim>\<open>LastPush\<close> (lines 71-88).
\<close>

record PushRequest =
  PushRequest_Date :: string
  PushRequest_Body :: KPIWrap
  PushRequest_Errors :: "string list"

record PushResponse =
  PushResponse_Date :: string
  PushResponse_Body :: ResponseStatus

record LastPush =
  LastPush_Request :: PushRequest
  LastPush_Response :: PushResponse
  LastPush_Metrics :: "string list"

text \<open>
  \<^verbatim>\<open>json.Unmarshal(response, &lastPushes)\<close> (line 179). How a syntax tree fills a
  \<^verbatim>\<open>[]LastPush\<close> is the library's business: \<open>decode\<close> gives the slice, or \<open>None\<close> for a
  type error.
\<close>

definition json_Unmarshal_LastPushes :: "(bytes \<Rightarrow> json option) \<Rightarrow> (json \<Rightarrow> LastPush list option) \<Rightarrow> bytes \<Rightarrow> json_error + LastPush list" where
  "json_Unmarshal_LastPushes parse decode data =
    (case parse data of
       None \<Rightarrow> Inl SyntaxError
     | Some j \<Rightarrow> (case decode j of None \<Rightarrow> Inl UnmarshalTypeError | Some l \<Rightarrow> Inr l))"

section \<open>The HTTP exchange\<close>

text \<open>
  A \<^verbatim>\<open>context.Context\<close> is an interface value and can be nil. The body of a request
  is the document it carries.
\<close>

datatype Context = NilContext | Background | Derived string

record Request =
  Method :: string
  URL :: string
  Header :: "(string \<times> string) list"
  BasicAuth :: "(string \<times> string) option"
  RequestBody :: "json option"
  Ctx :: Context

text \<open>
  A response as the client reads it: the status code, and what \<^verbatim>\<open>ioutil.ReadAll\<close>
  makes of the body, the text of a read error or the bytes.
\<close>

record Response =
  StatusCode :: int
  Body :: "string + bytes"

text \<open>
  The struct \<^verbatim>\<open>Client\<close> (lines 29-33). The \<^verbatim>\<open>*http.Client\<close> is what its method
  \<^verbatim>\<open>Do\<close> answers to a request, the text of a transport error or a response; the pointer
  can be nil.
\<close>

record Client =
  PushToken :: string
  PushHost :: string
  HTTPClient :: "(Request \<Rightarrow> string + Response) option"

definition apiURL :: string where
  "apiURL = ''https://push.databox.com''"

definition clientVersion :: string where
  "clientVersion = ''2.1.0''"

text \<open>
  \<^verbatim>\<open>NewClient\<close> (lines 91-103); \<open>transport\<close> is how the network answers through the
  default transport.
\<close>

definition NewClient :: "(Request \<Rightarrow> string + Response) \<Rightarrow> string \<Rightarrow> Client" where
  "NewClient transport pushToken =
    \<lparr>PushToken = pushToken, PushHost = apiURL, HTTPClient = Some transport\<rparr>"

text \<open>
  \<^verbatim>\<open>http.NewRequestWithContext\<close>. It fails on a nil context, on a method that is not a
  token and on a URL that does not parse; the client passes only \<open>GET\<close> and \<open>POST\<close> and
  URLs made of \<open>apiURL\<close> and a path of its own, so the nil context is the one failure left.
\<close>

definition http_NewRequestWithContext :: "Context \<Rightarrow> string \<Rightarrow> string \<Rightarrow> json option \<Rightarrow> error + Request" where
  "http_NewRequestWithContext ctx method url body =
    (if ctx = NilContext then Inl (ErrorString ''net/http: nil Context'')
     else Inr \<lparr>Method = method, URL = url, Header = [], BasicAuth = None,
                RequestBody = body, Ctx = ctx\<rparr>)"

definition Header_Set :: "string \<Rightarrow> string \<Rightarrow> Request \<Rightarrow> Request" where
  "Header_Set name v request = request\<lparr>Header := AList.update name v (Header request)\<rparr>"

definition SetBasicAuth :: "string \<Rightarrow> string \<Rightarrow> Request \<Rightarrow> Request" where
  "SetBasicAuth username password request = request\<lparr>BasicAuth := Some (username, password)\<rparr>"

text \<open>\<^verbatim>\<open>strings.Split(s, ".")[0]\<close>: what comes before the first dot.\<close>

definition beforeDot :: "string \<Rightarrow> string" where
  "beforeDot s = takeWhile (\<lambda>c. c \<noteq> CHR ''.'') s"

text \<open>
  \<^verbatim>\<open>postRequest\<close> (lines 105-137). The result is paired with the requests handed to
  \<^verbatim>\<open>HTTPClient.Do\<close>. On a failed read the source also returns the bytes read so far,
  which both callers drop.
\<close>

definition postRequest :: "(bytes \<Rightarrow> json option) \<Rightarrow> Client \<Rightarrow> Context \<Rightarrow> string \<Rightarrow> json \<Rightarrow> Request list \<times> bytes result" where
  "postRequest parse c ctx path payload =
    (let userAgent = ''databox-go/'' @ clientVersion;
         accept = ''application/vnd.databox.v'' @ beforeDot clientVersion @ ''+json''
     in case http_NewRequestWithContext ctx ''POST'' (apiURL @ path) (Some payload) of
          Inl err \<Rightarrow> ([], Err (WrapError ''creating request object: '' err))
        | Inr request \<Rightarrow>
           (let request = Header_Set ''User-Agent'' userAgent request;
                request = Header_Set ''Accept'' accept request;
                request = Header_Set ''Content-Type'' ''application/json'' request;
                request = SetBasicAuth (PushToken c) '''' request
            in case HTTPClient c of
                 None \<Rightarrow> ([], Panic)
               | Some do \<Rightarrow>
                  (case do request of
                     Inl err \<Rightarrow> ([request], Err (WrapError ''executing HTTP request: '' (NetError err)))
                   | Inr response \<Rightarrow>
                      (case Body response of
                         Inl err \<Rightarrow>
                           ([request], Err (WrapError ''reading response body: '' (NetError err)))
                       | Inr data \<Rightarrow>
                          if StatusCode response < 200 \<or> StatusCode response > 299 then
                            (case json_Unmarshal_ResponseStatus parse data of
                               Inl err \<Rightarrow>
                                 ([request],
                                  Err (WrapError (''can't unmarshal data['' @ data @ '']: '')
                                        (JSONError err)))
                             | Inr None \<Rightarrow> ([request], Panic)
                             | Inr (Some responseStatus) \<Rightarrow>
                                 ([request],
                                  Err (ErrorString
                                        (Type responseStatus @ '': '' @ Message responseStatus))))
                          else ([request], Ok data)))))"

text \<open>\<^verbatim>\<open>getRequest\<close> (lines 139-162).\<close>

definition getRequest :: "Client \<Rightarrow> Context \<Rightarrow> string \<Rightarrow> Request list \<times> bytes result" where
  "getRequest c ctx path =
    (let userAgent = ''databox-go/'' @ clientVersion;
         accept = ''application/vnd.databox.v'' @ beforeDot clientVersion @ ''+json''
     in case http_NewRequestWithContext ctx ''GET'' (apiURL @ path) None of
          Inl err \<Rightarrow> ([], Err (WrapError ''creating request object: '' err))
        | Inr request \<Rightarrow>
           (let request = Header_Set ''User-Agent'' userAgent request;
                request = Header_Set ''Accept'' accept request;
                request = Header_Set ''Content-Type'' ''application/json'' request;
                request = SetBasicAuth (PushToken c) '''' request
            in case HTTPClient c of
                 None \<Rightarrow> ([], Panic)
               | Some do \<Rightarrow>
                  (case do request of
                     Inl err \<Rightarrow> ([request], Err (WrapError ''executing HTTP request: '' (NetError err)))
                   | Inr response \<Rightarrow>
                      (case Body response of
                         Inl err \<Rightarrow>
                           ([request], Err (WrapError ''reading response body: '' (NetError err)))
                       | Inr data \<Rightarrow> ([request], Ok data)))))"

section \<open>The operations\<close>

text \<open>The verb \<^verbatim>\<open>%d\<close> of \<^verbatim>\<open>fmt.Sprintf\<close>: an integer in decimal.\<close>

fun digits :: "nat \<Rightarrow> string" where
  "digits n =
    (if n < 10 then [''0123456789'' ! n]
     else digits (n div 10) @ [''0123456789'' ! (n mod 10)])"

declare digits.simps [simp del]

definition itoa :: "int \<Rightarrow> string" where
  "itoa n = (if n < 0 then ''-'' @ digits (nat (- n)) else digits (nat n))"

text \<open>\<^verbatim>\<open>LastPushesCtx\<close> (lines 171-184) and \<^verbatim>\<open>LastPushes\<close> (lines 165-167).\<close>

definition LastPushesCtx :: "(bytes \<Rightarrow> json option) \<Rightarrow> (json \<Rightarrow> LastPush list option) \<Rightarrow> Client \<Rightarrow> Context \<Rightarrow> int \<Rightarrow> Request list \<times> LastPush list result" where
  "LastPushesCtx parse decode c ctx n =
    (let path = ''/lastpushes?limit='' @ itoa n
     in case getRequest c ctx path of
          (sent, Err err) \<Rightarrow> (sent, Err (WrapError ''requesting /lastpushes from API: '' err))
        | (sent, Panic) \<Rightarrow> (sent, Panic)
        | (sent, Ok response) \<Rightarrow>
           (case json_Unmarshal_LastPushes parse decode response of
              Inl err \<Rightarrow>
                (sent, Err (WrapError (''can't unmarshal response['' @ response @ '']: '')
                             (JSONError err)))
            | Inr lastPushes \<Rightarrow> (sent, Ok lastPushes)))"

definition LastPushes :: "(bytes \<Rightarrow> json option) \<Rightarrow> (json \<Rightarrow> LastPush list option) \<Rightarrow> Client \<Rightarrow> int \<Rightarrow> Request list \<times> LastPush list result" where
  "LastPushes parse decode c n = LastPushesCtx parse decode c Background n"

text \<open>\<^verbatim>\<open>LastPushCtx\<close> (lines 193-202) and \<^verbatim>\<open>LastPush\<close> (lines 187-189).\<close>

definition LastPushCtx :: "(bytes \<Rightarrow> json option) \<Rightarrow> (json \<Rightarrow> LastPush list option) \<Rightarrow> Client \<Rightarrow> Context \<Rightarrow> Request list \<times> LastPush result" where
  "LastPushCtx parse decode c ctx =
    (case LastPushesCtx parse decode c ctx 1 of
       (sent, Err err) \<Rightarrow> (sent, Err err)
     | (sent, Panic) \<Rightarrow> (sent, Panic)
     | (sent, Ok lastPushes) \<Rightarrow>
        (case lastPushes of
           [] \<Rightarrow> (sent, Err (ErrorString ''no last push''))
         | first # rest \<Rightarrow> (sent, Ok first)))"

definition LastPush :: "(bytes \<Rightarrow> json option) \<Rightarrow> (json \<Rightarrow> LastPush list option) \<Rightarrow> Client \<Rightarrow> Request list \<times> LastPush result" where
  "LastPush parse decode c = LastPushCtx parse decode c Background"

text \<open>
  \<^verbatim>\<open>PushCtx\<close> (lines 211-228) and \<^verbatim>\<open>Push\<close> (lines 205-207). The record comes through
  a pointer, which can be nil: \<open>None\<close>. A successful call returns a pointer to a
  \<^verbatim>\<open>ResponseStatus\<close>, nil when the body was the JSON \<open>null\<close>.
\<close>

definition PushCtx :: "(bytes \<Rightarrow> json option) \<Rightarrow> Client \<Rightarrow> Context \<Rightarrow> KPI option \<Rightarrow> Request list \<times> ResponseStatus option result" where
  "PushCtx parse c ctx kpi =
    (case kpi of
       None \<Rightarrow> ([], Panic)
     | Some k \<Rightarrow>
        (case serializeKPIs [k] False of
           Inl err \<Rightarrow> ([], Err (WrapError ''preparing request: '' err))
         | Inr payload \<Rightarrow>
            (case postRequest parse c ctx ''/'' payload of
               (sent, Err err) \<Rightarrow> (sent, Err (WrapError ''sending request: '' err))
             | (sent, Panic) \<Rightarrow> (sent, Panic)
             | (sent, Ok response) \<Rightarrow>
                (case json_Unmarshal_ResponseStatus parse response of
                   Inl err \<Rightarrow>
                     (sent, Err (WrapError (''can't unmarshal respoonse['' @ response @ '']: '')
                                  (JSONError err)))
                 | Inr responseStatus \<Rightarrow> (sent, Ok responseStatus)))))"

definition Push :: "(bytes \<Rightarrow> json option) \<Rightarrow> Client \<Rightarrow> KPI option \<Rightarrow> Request list \<times> ResponseStatus option result" where
  "Push parse c kpi = PushCtx parse c Background kpi"

text \<open>\<^verbatim>\<open>InsertAll\<close> (lines 237-254).\<close>

definition InsertAll :: "(bytes \<Rightarrow> json option) \<Rightarrow> Client \<Rightarrow> Context \<Rightarrow> KPI list \<Rightarrow> bool \<Rightarrow> Request list \<times> ResponseStatus option result" where
  "InsertAll parse c ctx kpis forcePush =
    (case serializeKPIs kpis forcePush of
       Inl err \<Rightarrow> ([], Err (WrapError ''preparing request: '' err))
     | Inr payload \<Rightarrow>
        (case postRequest parse c ctx ''/'' payload of
           (sent, Err err) \<Rightarrow> (sent, Err (WrapError ''sending request: '' err))
         | (sent, Panic) \<Rightarrow> (sent, Panic)
         | (sent, Ok response) \<Rightarrow>
            (case json_Unmarshal_ResponseStatus parse response of
               Inl err \<Rightarrow>
                 (sent, Err (WrapError (''can't unmarshal respoonse['' @ response @ '']: '')
                              (JSONError err)))
             | Inr responseStatus \<Rightarrow> (sent, Ok responseStatus))))"

section \<open>One map, two iteration orders\<close>

text \<open>
  Two lists of entries stand for the same Go map when both have distinct keys and they
  hold the same entries: they differ in the order of iteration only. Two records are the
  same when their scalar fields agree and their maps are the same.
\<close>

definition same_map :: "(string \<times> 'v) list \<Rightarrow> (string \<times> 'v) list \<Rightarrow> bool" where
  "same_map a b \<longleftrightarrow> distinct (map fst a) \<and> distinct (map fst b) \<and> set a = set b"

definition same_KPI :: "KPI \<Rightarrow> KPI \<Rightarrow> bool" where
  "same_KPI k k' \<longleftrightarrow>
     Key k = Key k' \<and> Value k = Value k' \<and> Date k = Date k' \<and> Unit k = Unit k'
     \<and> same_map (Metrics k) (Metrics k') \<and> same_map (Attributes k) (Attributes k')"

section \<open>Sample values\<close>

text \<open>
  A record whose attribute \<open>$x\<close> collides with the metric \<open>x\<close>; the metric is 1.0 and
  the value under the key \<open>y\<close> is 2.0.
\<close>

definition kpi_collide :: KPI where
  "kpi_collide =
    \<lparr>Key = ''y'', Value = 0x40000000, Metrics = [(''x'', 0x3F800000)], Date = '''',
     Unit = '''', Attributes = [(''$x'', VString ''a'')]\<rparr>"

text \<open>The same record with the key \<open>x\<close>, the name of its metric.\<close>

definition kpi_collide_key :: KPI where
  "kpi_collide_key =
    \<lparr>Key = ''x'', Value = 0x40000000, Metrics = [(''x'', 0x3F800000)], Date = '''',
     Unit = '''', Attributes = [(''$x'', VString ''a'')]\<rparr>"

text \<open>A record whose value is the negative infinity, under the key \<open>a\<close>.\<close>

definition kpi_infinite :: KPI where
  "kpi_infinite =
    \<lparr>Key = ''a'', Value = 0xFF800000, Metrics = [], Date = '''', Unit = '''', Attributes = []\<rparr>"

text \<open>A record with no key, whose value is 5.0.\<close>

definition kpi_unkeyed :: KPI where
  "kpi_unkeyed =
    \<lparr>Key = '''', Value = 0x40A00000, Metrics = [], Date = '''', Unit = '''', Attributes = []\<rparr>"

text \<open>One record under two iteration orders of its maps.\<close>

definition kpi_ab :: KPI where
  "kpi_ab =
    \<lparr>Key = ''visits'', Value = 0x42280000,
     Metrics = [(''sales'', 0x42C80000), (''returns'', 0x40400000)],
     Date = ''2024-01-31'', Unit = ''count'',
     Attributes = [(''country'', VString ''US''), (''channel'', VString ''web'')]\<rparr>"

definition kpi_ba :: KPI where
  "kpi_ba =
    \<lparr>Key = ''visits'', Value = 0x42280000,
     Metrics = [(''returns'', 0x40400000), (''sales'', 0x42C80000)],
     Date = ''2024-01-31'', Unit = ''count'',
     Attributes = [(''channel'', VString ''web''), (''country'', VString ''US'')]\<rparr>"

text \<open>
  The syntax trees of the few bodies the samples use; every other byte string, among
  them \<open>oops\<close>, counts as no JSON text.
\<close>

definition parse_demo :: "bytes \<Rightarrow> json option" where
  \<open>parse_demo data =
    (if data = ''[]'' then Some (JArray [])
     else if data = ''[{}]'' then Some (JArray [JObject []])
     else if data = ''null'' then Some JNull
     else if data = ''{"type":"invalid_token","message":"bad token"}''
       then Some (JObject [(''type'', JString ''invalid_token''),
                           (''message'', JString ''bad token'')])
     else None)\<close>

text \<open>
  The zero value of \<^verbatim>\<open>LastPush\<close>, and the slice decoder on \<open>null\<close> and on arrays of
  empty objects, each of which leaves an element at its zero value.
\<close>

definition lastPush_zero :: LastPush where
  "lastPush_zero =
    \<lparr>LastPush_Request =
       \<lparr>PushRequest_Date = '''', PushRequest_Body = \<lparr>Data = None, Meta = None\<rparr>,
        PushRequest_Errors = []\<rparr>,
     LastPush_Response =
       \<lparr>PushResponse_Date = '''',
        PushResponse_Body = \<lparr>ID = '''', Type = '''', Message = ''''\<rparr>\<rparr>,
     LastPush_Metrics = []\<rparr>"

definition decode_demo :: "json \<Rightarrow> LastPush list option" where
  "decode_demo j =
    (case j of
       JNull \<Rightarrow> Some []
     | JArray xs \<Rightarrow>
         if list_all (\<lambda>x. x = JObject []) xs then Some (map (\<lambda>x. lastPush_zero) xs) else None
     | _ \<Rightarrow> None)"

text \<open>
  Two HTTP clients: one answers every request with a given status and body, the other
  cannot connect. The sample client is configured with a host of its own.
\<close>

definition answer :: "int \<Rightarrow> bytes \<Rightarrow> Request \<Rightarrow> string + Response" where
  "answer status data request = Inr \<lparr>StatusCode = status, Body = Inr data\<rparr>"

definition refuse :: "Request \<Rightarrow> string + Response" where
  "refuse request = Inl ''connection refused''"

definition client_demo :: "(Request \<Rightarrow> string + Response) \<Rightarrow> Client" where
  "client_demo do =
     \<lparr>PushToken = ''token'', PushHost = ''http://localhost:8080'', HTTPClient = Some do\<rparr>"

section \<open>Facts about the loops\<close>

lemma map_of_fold_update:
  assumes "inj f" and "distinct (map fst xs)"
  shows "map_of (fold (\<lambda>(key, value) p. AList.update (f key) (g value) p) xs p0) =
         map_of p0 ++ map_of (map (\<lambda>(key, value). (f key, g value)) xs)"
  using assms(2)
proof (induction xs arbitrary: p0)
  case Nil
  then show ?case by simp
next
  case (Cons a xs)
  obtain k v where a: "a = (k, v)" by (cases a)
  let ?M = "map_of (map (\<lambda>(key, value). (f key, g value)) xs)"
  from Cons.prems have dk: "k \<notin> fst ` set xs" and dxs: "distinct (map fst xs)"
    by (auto simp: a)
  have "f k \<notin> f ` fst ` set xs"
    using dk assms(1) by (auto dest: injD)
  moreover have "dom ?M = f ` fst ` set xs"
    by (force simp: dom_map_of_conv_image_fst)
  ultimately have fresh: "f k \<notin> dom ?M"
    by simp
  have "map_of (fold (\<lambda>(key, value) p. AList.update (f key) (g value) p) (a # xs) p0) =
        (map_of p0)(f k \<mapsto> g v) ++ ?M"
    using Cons.IH [OF dxs, of "AList.update (f k) (g v) p0"]
    by (simp add: a update_conv' fun_upd_def)
  also have "\<dots> = (map_of p0 ++ ?M)(f k \<mapsto> g v)"
    using fresh by (auto simp: map_add_def fun_eq_iff domIff split: option.splits)
  also have "\<dots> = map_of p0 ++ map_of (map (\<lambda>(key, value). (f key, g value)) (a # xs))"
    by (simp add: a)
  finally show ?case .
qed

lemma map_of_dollar_metrics_at:
  "map_of (map (\<lambda>(key, value). (''$'' @ key, VFloat32 value)) ms) x = metric_at ms x"
proof (induction ms)
  case Nil
  then show ?case by (simp add: metric_at_def split: list.splits)
next
  case (Cons a ms)
  obtain k v where a: "a = (k, v)" by (cases a)
  from Cons.IH show ?case
    by (cases x) (auto simp: a metric_at_def)
qed

lemma map_of_dollar_metrics:
  "map_of (map (\<lambda>(key, value). (''$'' @ key, VFloat32 value)) ms) = metric_at ms"
  by (rule ext) (rule map_of_dollar_metrics_at)

lemma map_of_copy_entries:
  "map_of (map (\<lambda>(key, value). (key, value)) xs) = map_of xs"
  by (simp add: case_prod_unfold)

lemma inj_dollar: "inj (\<lambda>key. ''$'' @ key)"
  by (simp add: inj_def)

lemma distinct_fold_update:
  "distinct (map fst p0) \<Longrightarrow>
   distinct (map fst (fold (\<lambda>(key, value) p. AList.update (f key) (g value) p) xs p0))"
  by (induction xs arbitrary: p0) (auto simp: distinct_update)


lemma ToJSONData_map_of:
  assumes "wf_KPI kpi"
  shows "map_of (ToJSONData kpi) =
    (let p = map_of (Attributes kpi);
         p = p ++ metric_at (Metrics kpi);
         p = (if Key kpi \<noteq> '''' then p(''$'' @ Key kpi \<mapsto> VFloat32 (Value kpi)) else p);
         p = (if Date kpi \<noteq> '''' then p(''date'' \<mapsto> VString (Date kpi)) else p);
         p = (if Unit kpi \<noteq> '''' then p(''unit'' \<mapsto> VString (Unit kpi)) else p)
     in p)"
proof -
  have dm: "distinct (map fst (Metrics kpi))" and da: "distinct (map fst (Attributes kpi))"
    using assms by (simp_all add: wf_KPI_def)
  define p1 where "p1 = fold (\<lambda>(key, value) p. AList.update key value p) (Attributes kpi) []"
  define p2 where
    "p2 = fold (\<lambda>(key, value) p. AList.update (''$'' @ key) (VFloat32 value) p) (Metrics kpi) p1"
  have A: "map_of p1 = map_of (Attributes kpi)"
    unfolding p1_def
    using map_of_fold_update [of "\<lambda>key. key" "Attributes kpi" "\<lambda>value. value" "[]"] da
    by (simp add: map_of_copy_entries)
  have M: "map_of p2 = map_of (Attributes kpi) ++ metric_at (Metrics kpi)"
    unfolding p2_def
    using map_of_fold_update [OF inj_dollar dm, of VFloat32 p1]
    by (simp only: map_of_dollar_metrics A)
  have "ToJSONData kpi =
    (let payload = p2;
         payload = (if Key kpi \<noteq> '''' then AList.update (''$'' @ Key kpi) (VFloat32 (Value kpi)) payload
                    else payload);
         payload = (if Date kpi \<noteq> '''' then AList.update ''date'' (VString (Date kpi)) payload
                    else payload);
         payload = (if Unit kpi \<noteq> '''' then AList.update ''unit'' (VString (Unit kpi)) payload
                    else payload)
     in payload)"
    unfolding ToJSONData_def p1_def p2_def Let_def by (rule refl)
  then show ?thesis
    by (simp add: Let_def update_conv' M)
qed

section \<open>The order of the writes in \<^verbatim>\<open>ToJSONData\<close>\<close>

text \<open>
  Claim C1, as the code has it. For every well-formed record, the output of
  \<^verbatim>\<open>ToJSONData\<close>, read as a map, is built in this order: the attributes, copied as they
  are; over them the metrics, each under \<open>$\<close> followed by its name; over that, when \<open>Key\<close>
  is not empty, \<open>Value\<close> under \<open>$\<close> followed by \<open>Key\<close>; then the date and the unit. Each
  write replaces what was at its key. So at the key of a metric a colliding attribute is
  always lost, and the output holds the metric's value there, except when \<open>Key\<close> names
  that same metric: then it holds \<open>Value\<close>.
\<close>

theorem ToJSONData_precedence:
  assumes "wf_KPI kpi"
  shows "map_of (ToJSONData kpi) =
      (let p = map_of (Attributes kpi);
           p = p ++ metric_at (Metrics kpi);
           p = (if Key kpi \<noteq> '''' then p(''$'' @ Key kpi \<mapsto> VFloat32 (Value kpi)) else p);
           p = (if Date kpi \<noteq> '''' then p(''date'' \<mapsto> VString (Date kpi)) else p);
           p = (if Unit kpi \<noteq> '''' then p(''unit'' \<mapsto> VString (Unit kpi)) else p)
       in p)
    \<and> (\<forall>n v. map_of (Metrics kpi) n = Some v \<longrightarrow>
          map_of (ToJSONData kpi) (''$'' @ n) =
            Some (VFloat32 (if Key kpi \<noteq> '''' \<and> Key kpi = n then Value kpi else v)))"
proof (intro conjI allI impI)
  show "map_of (ToJSONData kpi) =
      (let p = map_of (Attributes kpi);
           p = p ++ metric_at (Metrics kpi);
           p = (if Key kpi \<noteq> '''' then p(''$'' @ Key kpi \<mapsto> VFloat32 (Value kpi)) else p);
           p = (if Date kpi \<noteq> '''' then p(''date'' \<mapsto> VString (Date kpi)) else p);
           p = (if Unit kpi \<noteq> '''' then p(''unit'' \<mapsto> VString (Unit kpi)) else p)
       in p)"
    using assms by (rule ToJSONData_map_of)
next
  fix n v
  assume h: "map_of (Metrics kpi) n = Some v"
  then have "metric_at (Metrics kpi) (''$'' @ n) = Some (VFloat32 v)"
    by (simp add: metric_at_def)
  then show "map_of (ToJSONData kpi) (''$'' @ n) =
      Some (VFloat32 (if Key kpi \<noteq> '''' \<and> Key kpi = n then Value kpi else v))"
    by (auto simp: ToJSONData_map_of [OF assms] Let_def map_add_def)
qed

text \<open>
  Claim C1 at two records whose attribute \<open>$x\<close> collides with the metric \<open>x\<close>: under
  the key \<open>y\<close> the output holds the metric, 1.0; under the key \<open>x\<close> it holds the
  value, 2.0.
\<close>

theorem ToJSONData_precedence_witness:
  "wf_KPI kpi_collide \<and> map_of (Attributes kpi_collide) ''$x'' = Some (VString ''a'')
   \<and> map_of (Metrics kpi_collide) ''x'' = Some 0x3F800000
   \<and> map_of (ToJSONData kpi_collide) ''$x'' = Some (VFloat32 0x3F800000)
   \<and> wf_KPI kpi_collide_key \<and> map_of (Metrics kpi_collide_key) ''x'' = Some 0x3F800000
   \<and> map_of (ToJSONData kpi_collide_key) ''$x'' = Some (VFloat32 0x40000000)"
proof -
  have wf: "wf_KPI kpi_collide" and wf': "wf_KPI kpi_collide_key"
    by (simp_all add: kpi_collide_def kpi_collide_key_def wf_KPI_def)
  have m: "map_of (Metrics kpi_collide) ''x'' = Some 0x3F800000"
    and m': "map_of (Metrics kpi_collide_key) ''x'' = Some 0x3F800000"
    by (simp_all add: kpi_collide_def kpi_collide_key_def)
  from ToJSONData_precedence [OF wf] m
  have "map_of (ToJSONData kpi_collide) (''$'' @ ''x'') =
      Some (VFloat32 (if Key kpi_collide \<noteq> '''' \<and> Key kpi_collide = ''x''
                      then Value kpi_collide else 0x3F800000))"
    by blast
  moreover from ToJSONData_precedence [OF wf'] m'
  have "map_of (ToJSONData kpi_collide_key) (''$'' @ ''x'') =
      Some (VFloat32 (if Key kpi_collide_key \<noteq> '''' \<and> Key kpi_collide_key = ''x''
                      then Value kpi_collide_key else 0x3F800000))"
    by blast
  ultimately show ?thesis
    using wf wf' m m' by (simp add: kpi_collide_def kpi_collide_key_def)
qed

text \<open>
  Claim C1 as it was stated fails at the record whose attribute \<open>$x\<close>, metric \<open>x\<close> and
  key \<open>x\<close> all collide: the output holds neither the attribute nor the metric's value 1.0
  but the value 2.0.
\<close>

theorem ToJSONData_precedence_counterexample:
  "map_of (Attributes kpi_collide_key) ''$x'' = Some (VString ''a'')
   \<and> map_of (Metrics kpi_collide_key) ''x'' = Some 0x3F800000
   \<and> map_of (ToJSONData kpi_collide_key) ''$x'' = Some (VFloat32 0x40000000)
   \<and> map_of (ToJSONData kpi_collide_key) ''$x'' \<noteq> Some (VFloat32 0x3F800000)"
  by (simp add: kpi_collide_key_def ToJSONData_def)

section \<open>The envelope and the force flag\<close>

lemma fold_append_Data:
  "fold (\<lambda>kpi w. w\<lparr>Data := append_slice (Data w) (ToJSONData kpi)\<rparr>) kpis
     \<lparr>Data = Some ds, Meta = m\<rparr> = \<lparr>Data = Some (ds @ map ToJSONData kpis), Meta = m\<rparr>"
  by (induction kpis arbitrary: ds) (simp_all add: append_slice_def)

lemma serializeKPIs_wrap:
  "serializeKPIs kpis forcePush =
   map_sum JSONError id
     (json_Marshal_KPIWrap
       \<lparr>Data = Some (map ToJSONData kpis),
        Meta = (if forcePush then Some [(''ensure_unique'', VBool True)] else None)\<rparr>)"
  by (simp add: serializeKPIs_def Let_def fold_append_Data)

lemma marshal_ensure_unique:
  "marshal_payload [(''ensure_unique'', VBool True)] = Inr (JObject [(''ensure_unique'', JBool True)])"
  by (simp add: marshal_payload_def)

lemma serializeKPIs_sequence:
  "serializeKPIs kpis forcePush =
     (case sequence (map (\<lambda>kpi. marshal_payload (ToJSONData kpi)) kpis) of
        Inl e \<Rightarrow> Inl (JSONError e)
      | Inr data \<Rightarrow>
          Inr (JObject
            (if forcePush
             then [(''data'', JArray data), (''meta'', JObject [(''ensure_unique'', JBool True)])]
             else [(''data'', JArray data)])))"
  by (simp add: serializeKPIs_wrap json_Marshal_KPIWrap_def marshal_ensure_unique comp_def
      split: sum.splits)

lemma sequence_map_ok:
  "(\<And>x. x \<in> set xs \<Longrightarrow> \<exists>y. f x = Inr y) \<Longrightarrow>
   \<exists>ys. sequence (map f xs) = Inr ys \<and> length ys = length xs"
proof (induction xs)
  case Nil
  then show ?case by simp
next
  case (Cons x xs)
  from Cons.prems [of x] obtain y where y: "f x = Inr y"
    by auto
  from Cons.IH Cons.prems obtain ys where "sequence (map f xs) = Inr ys" "length ys = length xs"
    by auto
  with y show ?case
    by simp
qed

lemma set_update_cases:
  "(a, b) \<in> set (AList.update k v al) \<Longrightarrow> (a, b) = (k, v) \<or> (a, b) \<in> set al"
  by (induction al) (auto split: if_splits)

lemma set_fold_update_cases:
  "(a, b) \<in> set (fold (\<lambda>(key, value) p. AList.update (f key) (g value) p) xs p0) \<Longrightarrow>
   b \<in> g ` snd ` set xs \<or> (a, b) \<in> set p0"
proof (induction xs arbitrary: p0)
  case Nil
  then show ?case by simp
next
  case (Cons x xs)
  obtain k v where x: "x = (k, v)" by (cases x)
  from Cons.prems have "(a, b) \<in> set (fold (\<lambda>(key, value) p. AList.update (f key) (g value) p) xs
      (AList.update (f k) (g v) p0))"
    by (simp add: x)
  from Cons.IH [OF this] show ?case
    by (auto simp: x dest: set_update_cases)
qed

lemma values_ToJSONData:
  assumes "(a, b) \<in> set (ToJSONData kpi)"
  shows "b \<in> snd ` set (Attributes kpi) \<or> b \<in> VFloat32 ` snd ` set (Metrics kpi)
    \<or> b = VFloat32 (Value kpi) \<or> b = VString (Date kpi) \<or> b = VString (Unit kpi)"
proof -
  define p1 where "p1 = fold (\<lambda>(key, value) p. AList.update key value p) (Attributes kpi) []"
  define p2 where
    "p2 = fold (\<lambda>(key, value) p. AList.update (''$'' @ key) (VFloat32 value) p) (Metrics kpi) p1"
  have 1: "b \<in> snd ` set (Attributes kpi)" if "(a, b) \<in> set p1" for a b
    using set_fold_update_cases [of a b "\<lambda>key. key" "\<lambda>value. value" "Attributes kpi" "[]"] that
    by (simp add: p1_def)
  have 2: "b \<in> VFloat32 ` snd ` set (Metrics kpi) \<or> b \<in> snd ` set (Attributes kpi)"
    if "(a, b) \<in> set p2" for a b
    using set_fold_update_cases [of a b "\<lambda>key. ''$'' @ key" VFloat32 "Metrics kpi" p1] that 1
    unfolding p2_def by blast
  have "ToJSONData kpi =
    (let payload = p2;
         payload = (if Key kpi \<noteq> '''' then AList.update (''$'' @ Key kpi) (VFloat32 (Value kpi)) payload
                    else payload);
         payload = (if Date kpi \<noteq> '''' then AList.update ''date'' (VString (Date kpi)) payload
                    else payload);
         payload = (if Unit kpi \<noteq> '''' then AList.update ''unit'' (VString (Unit kpi)) payload
                    else payload)
     in payload)"
    unfolding ToJSONData_def p1_def p2_def Let_def by (rule refl)
  with assms 2 show ?thesis
    by (auto simp: Let_def split: if_splits dest!: set_update_cases)
qed

lemma encodable_KPI_marshal:
  assumes "encodable_KPI kpi"
  shows "\<exists>j. marshal_payload (ToJSONData kpi) = Inr j"
proof -
  have "\<exists>y. (case x of (k, v) \<Rightarrow> map_sum id (Pair k) (marshal_any v)) = Inr y"
    if "x \<in> set (sort_key fst (ToJSONData kpi))" for x
  proof -
    obtain a b where x: "x = (a, b)" by (cases x)
    with that have "(a, b) \<in> set (ToJSONData kpi)"
      by simp
    from values_ToJSONData [OF this] assms have "encodable b"
      by (auto simp: encodable_KPI_def list_all_iff encodable_def)
    then show ?thesis
      by (auto simp: x encodable_def split: sum.splits)
  qed
  from sequence_map_ok [of "sort_key fst (ToJSONData kpi)"
      "\<lambda>(k, v). map_sum id (Pair k) (marshal_any v)", OF this]
  show ?thesis
    by (auto simp: marshal_payload_def)
qed

lemma encodable_list_sequence:
  assumes "list_all encodable_KPI kpis"
  shows "\<exists>data. sequence (map (\<lambda>kpi. marshal_payload (ToJSONData kpi)) kpis) = Inr data
    \<and> length data = length kpis"
  using assms by (intro sequence_map_ok) (auto simp: list_all_iff dest: encodable_KPI_marshal)

text \<open>
  Claim C6, as the code has it. For every list of encodable records, \<^verbatim>\<open>serializeKPIs\<close>
  produces an envelope: with \<open>forcePush\<close> set it has exactly two members, \<open>data\<close> and
  \<open>meta\<close>, and \<open>meta\<close> is the object whose one member \<open>ensure_unique\<close> is \<open>true\<close>; with
  \<open>forcePush\<close> unset it has the one member \<open>data\<close> and no \<open>meta\<close>, neither \<open>null\<close> nor
  empty. Under either flag \<open>data\<close> is the array of the serialized records, one for each
  record. For every list whatever, the result is that envelope or, when
  \<^verbatim>\<open>json.Marshal\<close> cannot encode a record, its error, the same under both flags.
\<close>

theorem forcePush_meta:
  "serializeKPIs kpis True =
     (case sequence (map (\<lambda>kpi. marshal_payload (ToJSONData kpi)) kpis) of
        Inl e \<Rightarrow> Inl (JSONError e)
      | Inr data \<Rightarrow>
          Inr (JObject [(''data'', JArray data),
                        (''meta'', JObject [(''ensure_unique'', JBool True)])]))
   \<and> serializeKPIs kpis False =
     (case sequence (map (\<lambda>kpi. marshal_payload (ToJSONData kpi)) kpis) of
        Inl e \<Rightarrow> Inl (JSONError e)
      | Inr data \<Rightarrow> Inr (JObject [(''data'', JArray data)]))
   \<and> (list_all encodable_KPI kpis \<longrightarrow>
        (\<exists>data. length data = length kpis
           \<and> serializeKPIs kpis True =
               Inr (JObject [(''data'', JArray data),
                             (''meta'', JObject [(''ensure_unique'', JBool True)])])
           \<and> serializeKPIs kpis False = Inr (JObject [(''data'', JArray data)])))"
proof (intro conjI impI)
  assume "list_all encodable_KPI kpis"
  from encodable_list_sequence [OF this]
  show "\<exists>data. length data = length kpis
           \<and> serializeKPIs kpis True =
               Inr (JObject [(''data'', JArray data),
                             (''meta'', JObject [(''ensure_unique'', JBool True)])])
           \<and> serializeKPIs kpis False = Inr (JObject [(''data'', JArray data)])"
    by (auto simp: serializeKPIs_sequence)
qed (simp_all add: serializeKPIs_sequence split: sum.splits)

text \<open>Claim C6 at the list of one encodable record.\<close>

theorem forcePush_meta_witness:
  "list_all encodable_KPI [kpi_collide]
   \<and> serializeKPIs [kpi_collide] True =
       Inr (JObject [(''data'', JArray [JObject [(''$x'', JNumber (NFloat32 0x3F800000)),
                                                  (''$y'', JNumber (NFloat32 0x40000000))]]),
                     (''meta'', JObject [(''ensure_unique'', JBool True)])])
   \<and> serializeKPIs [kpi_collide] False =
       Inr (JObject [(''data'', JArray [JObject [(''$x'', JNumber (NFloat32 0x3F800000)),
                                                  (''$y'', JNumber (NFloat32 0x40000000))]])])"
proof -
  have e: "list_all encodable_KPI [kpi_collide]"
    by (simp add: encodable_KPI_def kpi_collide_def isFinite32_def encodable_def)
  have m: "marshal_payload (ToJSONData kpi_collide) =
      Inr (JObject [(''$x'', JNumber (NFloat32 0x3F800000)), (''$y'', JNumber (NFloat32 0x40000000))])"
    by (simp add: kpi_collide_def ToJSONData_def marshal_payload_def isFinite32_def)
  from forcePush_meta [of "[kpi_collide]"] e m show ?thesis
    by simp
qed

text \<open>
  Claim C6 as it was stated, for every list of records, fails at the list of the one
  record whose value is the negative infinity: \<^verbatim>\<open>json.Marshal\<close> refuses the value and
  \<^verbatim>\<open>serializeKPIs\<close> returns its error under either flag, so no envelope is produced.
\<close>

theorem forcePush_meta_counterexample:
  "\<not> isFinite32 (Value kpi_infinite)
   \<and> ToJSONData kpi_infinite = [(''$a'', VFloat32 0xFF800000)]
   \<and> serializeKPIs [kpi_infinite] True = Inl (JSONError UnsupportedValueError)
   \<and> serializeKPIs [kpi_infinite] False = Inl (JSONError UnsupportedValueError)"
  by (simp add: kpi_infinite_def ToJSONData_def serializeKPIs_def json_Marshal_KPIWrap_def
      marshal_payload_def append_slice_def isFinite32_def)


section \<open>A record without a key\<close>

lemma ToJSONData_Value:
  "Key kpi = '''' \<Longrightarrow> ToJSONData (kpi\<lparr>Value := v\<rparr>) = ToJSONData kpi"
  by (simp add: ToJSONData_def Let_def)

text \<open>
  Claim C10. For every record whose \<open>Key\<close> is empty, the output does not depend on
  \<open>Value\<close>: whatever is put in that field, \<^verbatim>\<open>ToJSONData\<close> returns the same object and
  \<^verbatim>\<open>serializeKPIs\<close> the same envelope or the same error, so the value is neither
  written under any key nor a reason to fail.
\<close>

theorem empty_Key_drops_Value:
  assumes "Key kpi = ''''"
  shows "ToJSONData (kpi\<lparr>Value := v\<rparr>) = ToJSONData kpi
    \<and> serializeKPIs (before @ kpi\<lparr>Value := v\<rparr> # after) forcePush =
      serializeKPIs (before @ kpi # after) forcePush"
  using assms by (simp add: serializeKPIs_wrap ToJSONData_Value)

text \<open>
  Claim C10 at the record with no key and the value 5.0: its output is that of the
  record with the value 0, the empty object.
\<close>

theorem empty_Key_drops_Value_witness:
  "Key kpi_unkeyed = '''' \<and> Value kpi_unkeyed = 0x40A00000
   \<and> ToJSONData kpi_unkeyed = ToJSONData (kpi_unkeyed\<lparr>Value := 0\<rparr>)
   \<and> ToJSONData kpi_unkeyed = []
   \<and> serializeKPIs [kpi_unkeyed] False = Inr (JObject [(''data'', JArray [JObject []])])"
proof -
  have k: "Key kpi_unkeyed = ''''"
    by (simp add: kpi_unkeyed_def)
  have "ToJSONData (kpi_unkeyed\<lparr>Value := 0\<rparr>) = ToJSONData kpi_unkeyed"
    using empty_Key_drops_Value [OF k, of 0 "[]" "[]" False] by simp
  moreover have "ToJSONData kpi_unkeyed = []"
    by (simp add: kpi_unkeyed_def ToJSONData_def)
  moreover have "serializeKPIs [kpi_unkeyed] False = Inr (JObject [(''data'', JArray [JObject []])])"
    by (simp add: kpi_unkeyed_def ToJSONData_def serializeKPIs_def json_Marshal_KPIWrap_def
        marshal_payload_def append_slice_def)
  ultimately show ?thesis
    using k by (simp add: kpi_unkeyed_def)
qed

section \<open>Serialization does not depend on the iteration order\<close>

lemma same_map_map_of: "same_map a b \<Longrightarrow> map_of a = map_of b"
  by (simp add: same_map_def map_of_inject_set)

lemma same_KPI_wf: "same_KPI k k' \<Longrightarrow> wf_KPI k \<and> wf_KPI k'"
  by (simp add: same_KPI_def same_map_def wf_KPI_def)

lemma metric_at_cong: "map_of ms = map_of ms' \<Longrightarrow> metric_at ms = metric_at ms'"
  by (rule ext) (simp add: metric_at_def split: list.splits)

lemma same_KPI_map_of:
  assumes "same_KPI k k'"
  shows "map_of (ToJSONData k) = map_of (ToJSONData k')"
proof -
  from assms have "same_map (Metrics k) (Metrics k')" and "same_map (Attributes k) (Attributes k')"
    by (simp_all add: same_KPI_def)
  then have m: "metric_at (Metrics k) = metric_at (Metrics k')"
    and a: "map_of (Attributes k) = map_of (Attributes k')"
    by (blast intro: same_map_map_of metric_at_cong)+
  from assms have f: "Key k = Key k'" "Value k = Value k'" "Date k = Date k'" "Unit k = Unit k'"
    by (simp_all add: same_KPI_def)
  from same_KPI_wf [OF assms] have wf: "wf_KPI k" and wf': "wf_KPI k'"
    by simp_all
  show ?thesis
    unfolding ToJSONData_map_of [OF wf] ToJSONData_map_of [OF wf'] m a f by (rule refl)
qed

lemma distinct_ToJSONData: "distinct (map fst (ToJSONData kpi))"
proof -
  define p1 where "p1 = fold (\<lambda>(key, value) p. AList.update key value p) (Attributes kpi) []"
  define p2 where
    "p2 = fold (\<lambda>(key, value) p. AList.update (''$'' @ key) (VFloat32 value) p) (Metrics kpi) p1"
  have "distinct (map fst p1)"
    unfolding p1_def
    using distinct_fold_update [of "[]" "\<lambda>key. key" "\<lambda>value. value" "Attributes kpi"] by simp
  then have d: "distinct (map fst p2)"
    unfolding p2_def by (rule distinct_fold_update)
  have "ToJSONData kpi =
    (let payload = p2;
         payload = (if Key kpi \<noteq> '''' then AList.update (''$'' @ Key kpi) (VFloat32 (Value kpi)) payload
                    else payload);
         payload = (if Date kpi \<noteq> '''' then AList.update ''date'' (VString (Date kpi)) payload
                    else payload);
         payload = (if Unit kpi \<noteq> '''' then AList.update ''unit'' (VString (Unit kpi)) payload
                    else payload)
     in payload)"
    unfolding ToJSONData_def p1_def p2_def Let_def by (rule refl)
  with d show ?thesis
    by (simp add: Let_def distinct_update)
qed

text \<open>Sorting by key forgets the order of a list of entries with distinct keys.\<close>

lemma sort_key_fst_unique:
  assumes "distinct (map fst p)" and "distinct (map fst q)" and "map_of p = map_of q"
  shows "sort_key fst p = sort_key fst q"
proof -
  from assms have s: "set p = set q"
    by (simp add: map_of_inject_set)
  have inj: "inj_on fst (set p)"
    using assms(1) by (simp add: distinct_map)
  show ?thesis
  proof (rule map_sorted_distinct_set_unique [where f = fst])
    show "inj_on fst (set (sort_key fst p) \<union> set (sort_key fst q))"
      using inj s by simp
    show "sorted (map fst (sort_key fst p))" and "sorted (map fst (sort_key fst q))"
      by simp_all
    show "distinct (map fst (sort_key fst p))"
      using assms(1) by (simp add: distinct_map)
    show "distinct (map fst (sort_key fst q))"
      using assms(2) by (simp add: distinct_map)
    show "set (sort_key fst p) = set (sort_key fst q)"
      using s by simp
  qed
qed

lemma same_KPI_marshal:
  assumes "same_KPI k k'"
  shows "marshal_payload (ToJSONData k) = marshal_payload (ToJSONData k')"
  using sort_key_fst_unique [OF distinct_ToJSONData distinct_ToJSONData same_KPI_map_of [OF assms]]
  by (simp add: marshal_payload_def)

text \<open>
  Claim C9. Serialization is a function of the record and of the flag alone. The one
  thing outside them that the code meets is the order in which Go iterates over the maps
  \<open>Attributes\<close> and \<open>Metrics\<close>, and it has no effect: for two lists of records that are
  the same up to that order, \<^verbatim>\<open>ToJSONData\<close> gives the same object record by record, and
  \<^verbatim>\<open>serializeKPIs\<close> gives the same envelope, or the same error, for the same flag.
\<close>

theorem serialization_deterministic:
  assumes "list_all2 same_KPI kpis kpis'"
  shows "list_all2 (\<lambda>k k'. map_of (ToJSONData k) = map_of (ToJSONData k')) kpis kpis'
    \<and> serializeKPIs kpis forcePush = serializeKPIs kpis' forcePush"
proof
  from assms show "list_all2 (\<lambda>k k'. map_of (ToJSONData k) = map_of (ToJSONData k')) kpis kpis'"
    by (rule list_all2_mono) (rule same_KPI_map_of)
next
  from assms have "map (\<lambda>kpi. marshal_payload (ToJSONData kpi)) kpis =
      map (\<lambda>kpi. marshal_payload (ToJSONData kpi)) kpis'"
    by (induction rule: list_all2_induct) (simp_all add: same_KPI_marshal)
  then show "serializeKPIs kpis forcePush = serializeKPIs kpis' forcePush"
    by (simp only: serializeKPIs_sequence)
qed

text \<open>
  Claim C9 at one record under two iteration orders: the loops visit the entries in
  different orders, and the object and the envelope are the same.
\<close>

theorem serialization_deterministic_witness:
  "list_all2 same_KPI [kpi_ab] [kpi_ba]
   \<and> ToJSONData kpi_ab \<noteq> ToJSONData kpi_ba
   \<and> map_of (ToJSONData kpi_ab) = map_of (ToJSONData kpi_ba)
   \<and> serializeKPIs [kpi_ab] True = serializeKPIs [kpi_ba] True"
proof -
  have s: "list_all2 same_KPI [kpi_ab] [kpi_ba]"
    by (auto simp: same_KPI_def same_map_def kpi_ab_def kpi_ba_def)
  have "ToJSONData kpi_ab \<noteq> ToJSONData kpi_ba"
    by (simp add: ToJSONData_def kpi_ab_def kpi_ba_def)
  with s serialization_deterministic [OF s, of True] show ?thesis
    by simp
qed

section \<open>The requests that are sent\<close>

lemma postRequest_cases:
  assumes "ctx \<noteq> NilContext" and "HTTPClient c = Some do"
  shows "postRequest parse c ctx path payload =
    (let request = \<lparr>Method = ''POST'', URL = apiURL @ path,
           Header = [(''User-Agent'', ''databox-go/2.1.0''),
                     (''Accept'', ''application/vnd.databox.v2+json''),
                     (''Content-Type'', ''application/json'')],
           BasicAuth = Some (PushToken c, ''''), RequestBody = Some payload, Ctx = ctx\<rparr>
     in ([request],
         case do request of
           Inl err \<Rightarrow> Err (WrapError ''executing HTTP request: '' (NetError err))
         | Inr response \<Rightarrow>
            (case Body response of
               Inl err \<Rightarrow> Err (WrapError ''reading response body: '' (NetError err))
             | Inr data \<Rightarrow>
                if StatusCode response < 200 \<or> StatusCode response > 299 then
                  (case json_Unmarshal_ResponseStatus parse data of
                     Inl err \<Rightarrow>
                       Err (WrapError (''can't unmarshal data['' @ data @ '']: '') (JSONError err))
                   | Inr None \<Rightarrow> Panic
                   | Inr (Some responseStatus) \<Rightarrow>
                       Err (ErrorString (Type responseStatus @ '': '' @ Message responseStatus)))
                else Ok data)))"
  using assms
  by (simp add: postRequest_def http_NewRequestWithContext_def Header_Set_def SetBasicAuth_def
      clientVersion_def beforeDot_def Let_def split: sum.splits option.splits)

lemma postRequest_sent:
  assumes "ctx \<noteq> NilContext" and "HTTPClient c = Some do"
  shows "fst (postRequest parse c ctx path payload) =
    [\<lparr>Method = ''POST'', URL = apiURL @ path,
      Header = [(''User-Agent'', ''databox-go/2.1.0''),
                (''Accept'', ''application/vnd.databox.v2+json''),
                (''Content-Type'', ''application/json'')],
      BasicAuth = Some (PushToken c, ''''), RequestBody = Some payload, Ctx = ctx\<rparr>]"
  by (simp add: postRequest_cases [OF assms] Let_def)

lemma postRequest_nothing_sent:
  "ctx = NilContext \<or> HTTPClient c = None \<Longrightarrow> fst (postRequest parse c ctx path payload) = []"
  by (auto simp: postRequest_def http_NewRequestWithContext_def Let_def)

lemma getRequest_cases:
  assumes "ctx \<noteq> NilContext" and "HTTPClient c = Some do"
  shows "getRequest c ctx path =
    (let request = \<lparr>Method = ''GET'', URL = apiURL @ path,
           Header = [(''User-Agent'', ''databox-go/2.1.0''),
                     (''Accept'', ''application/vnd.databox.v2+json''),
                     (''Content-Type'', ''application/json'')],
           BasicAuth = Some (PushToken c, ''''), RequestBody = None, Ctx = ctx\<rparr>
     in ([request],
         case do request of
           Inl err \<Rightarrow> Err (WrapError ''executing HTTP request: '' (NetError err))
         | Inr response \<Rightarrow>
            (case Body response of
               Inl err \<Rightarrow> Err (WrapError ''reading response body: '' (NetError err))
             | Inr data \<Rightarrow> Ok data)))"
  using assms
  by (simp add: getRequest_def http_NewRequestWithContext_def Header_Set_def SetBasicAuth_def
      clientVersion_def beforeDot_def Let_def split: sum.splits)

lemma InsertAll_sent:
  "serializeKPIs kpis forcePush = Inr payload \<Longrightarrow>
   fst (InsertAll parse c ctx kpis forcePush) = fst (postRequest parse c ctx ''/'' payload)"
  by (simp add: InsertAll_def split: prod.splits result.splits sum.splits)

lemma PushCtx_InsertAll:
  "PushCtx parse c ctx (Some kpi) = InsertAll parse c ctx [kpi] False"
  by (simp add: PushCtx_def InsertAll_def)

text \<open>
  Claim C7. For every record and context, \<^verbatim>\<open>PushCtx\<close> on a pointer to the record is
  \<^verbatim>\<open>InsertAll\<close> on the list of that one record with \<open>forcePush\<close> unset: the same request
  is sent and the same result or error comes back. \<^verbatim>\<open>Push\<close> is the same with the
  background context.
\<close>

theorem Push_is_InsertAll:
  "PushCtx parse c ctx (Some kpi) = InsertAll parse c ctx [kpi] False
   \<and> Push parse c (Some kpi) = InsertAll parse c Background [kpi] False"
  by (simp add: Push_def PushCtx_def InsertAll_def)

text \<open>
  Claim C8. The empty list with \<open>forcePush\<close> unset serializes to the envelope whose one
  member \<open>data\<close> is the empty array, not \<open>null\<close>, with no \<open>meta\<close>; and \<^verbatim>\<open>InsertAll\<close>,
  given a context and an HTTP client, hands the client one request, the POST of that
  envelope to the service root.
\<close>

theorem InsertAll_empty:
  "serializeKPIs [] False = Inr (JObject [(''data'', JArray [])])
   \<and> (ctx \<noteq> NilContext \<and> HTTPClient c = Some do \<longrightarrow>
        fst (InsertAll parse c ctx [] False) =
          [\<lparr>Method = ''POST'', URL = ''https://push.databox.com/'',
            Header = [(''User-Agent'', ''databox-go/2.1.0''),
                      (''Accept'', ''application/vnd.databox.v2+json''),
                      (''Content-Type'', ''application/json'')],
            BasicAuth = Some (PushToken c, ''''),
            RequestBody = Some (JObject [(''data'', JArray [])]), Ctx = ctx\<rparr>])"
proof -
  have s: "serializeKPIs [] False = Inr (JObject [(''data'', JArray [])])"
    by (simp add: serializeKPIs_def json_Marshal_KPIWrap_def)
  show ?thesis
    using s InsertAll_sent [OF s] postRequest_sent [of ctx c "do"]
    by (simp add: apiURL_def)
qed

text \<open>Claim C8 at the sample client and the background context.\<close>

theorem InsertAll_empty_witness:
  "Background \<noteq> NilContext
   \<and> HTTPClient (client_demo (answer 200 ''{}'')) = Some (answer 200 ''{}'')
   \<and> fst (InsertAll parse_demo (client_demo (answer 200 ''{}'')) Background [] False) =
          [\<lparr>Method = ''POST'', URL = ''https://push.databox.com/'',
            Header = [(''User-Agent'', ''databox-go/2.1.0''),
                      (''Accept'', ''application/vnd.databox.v2+json''),
                      (''Content-Type'', ''application/json'')],
            BasicAuth = Some (''token'', ''''),
            RequestBody = Some (JObject [(''data'', JArray [])]), Ctx = Background\<rparr>]"
  using InsertAll_empty [of Background "client_demo (answer 200 ''{}'')" "answer 200 ''{}''"
      parse_demo]
  by (simp add: client_demo_def)

section \<open>The host of a request\<close>

text \<open>
  No operation reads the field \<open>PushHost\<close>: the URL of every request starts with the
  constant \<open>apiURL\<close>, which is also what \<^verbatim>\<open>NewClient\<close> stores in the field.
\<close>

lemma PushHost_irrelevant:
  "PushCtx parse (c\<lparr>PushHost := h\<rparr>) ctx kpi = PushCtx parse c ctx kpi
   \<and> InsertAll parse (c\<lparr>PushHost := h\<rparr>) ctx kpis forcePush = InsertAll parse c ctx kpis forcePush
   \<and> LastPushesCtx parse decode (c\<lparr>PushHost := h\<rparr>) ctx n = LastPushesCtx parse decode c ctx n
   \<and> LastPushCtx parse decode (c\<lparr>PushHost := h\<rparr>) ctx = LastPushCtx parse decode c ctx"
proof -
  have p: "postRequest parse (c\<lparr>PushHost := h\<rparr>) = postRequest parse c"
    by (intro ext) (simp add: postRequest_def Let_def split: sum.splits option.splits)
  have g: "getRequest (c\<lparr>PushHost := h\<rparr>) = getRequest c"
    by (intro ext) (simp add: getRequest_def Let_def split: sum.splits option.splits)
  show ?thesis
    unfolding PushCtx_def InsertAll_def LastPushCtx_def LastPushesCtx_def p g
    by (intro conjI refl)
qed

lemma NewClient_PushHost: "PushHost (NewClient transport pushToken) = ''https://push.databox.com''"
  by (simp add: NewClient_def apiURL_def)

text \<open>
  Claim C2. The claim is that a client whose \<open>PushHost\<close> is set to a host sends every
  request to that host. The sample client has \<open>PushHost\<close> set to
  \<open>http://localhost:8080\<close>, and the one request of each of \<^verbatim>\<open>Push\<close>, \<^verbatim>\<open>InsertAll\<close>,
  \<^verbatim>\<open>LastPushes\<close> and \<^verbatim>\<open>LastPush\<close> goes to \<open>https://push.databox.com\<close>.
\<close>

theorem PushHost_is_not_used:
  "PushHost (client_demo (answer 200 ''[]'')) = ''http://localhost:8080''
   \<and> map URL (fst (Push parse_demo (client_demo (answer 200 ''[]'')) (Some kpi_collide))) =
       [''https://push.databox.com/'']
   \<and> map URL (fst (InsertAll parse_demo (client_demo (answer 200 ''[]'')) Background
                     [kpi_collide] True)) =
       [''https://push.databox.com/'']
   \<and> map URL (fst (LastPushes parse_demo decode_demo (client_demo (answer 200 ''[]'')) 3)) =
       [''https://push.databox.com/lastpushes?limit=3'']
   \<and> map URL (fst (LastPush parse_demo decode_demo (client_demo (answer 200 ''[]'')))) =
       [''https://push.databox.com/lastpushes?limit=1'']"
  by code_simp

section \<open>Reading the push history\<close>

lemma LastPushes_demo:
  "LastPushes parse_demo decode_demo (client_demo (answer status data)) n =
   ([\<lparr>Method = ''GET'', URL = ''https://push.databox.com/lastpushes?limit='' @ itoa n,
      Header = [(''User-Agent'', ''databox-go/2.1.0''),
                (''Accept'', ''application/vnd.databox.v2+json''),
                (''Content-Type'', ''application/json'')],
      BasicAuth = Some (''token'', ''''), RequestBody = None, Ctx = Background\<rparr>],
    case json_Unmarshal_LastPushes parse_demo decode_demo data of
      Inl err \<Rightarrow> Err (WrapError (''can't unmarshal response['' @ data @ '']: '') (JSONError err))
    | Inr lastPushes \<Rightarrow> Ok lastPushes)"
  by (simp add: LastPushes_def LastPushesCtx_def getRequest_def http_NewRequestWithContext_def
      Header_Set_def SetBasicAuth_def clientVersion_def beforeDot_def apiURL_def Let_def
      client_demo_def answer_def split: sum.splits)

lemma LastPushes_refuse:
  "snd (LastPushes parse decode (client_demo refuse) n) =
    Err (WrapError ''requesting /lastpushes from API: ''
          (WrapError ''executing HTTP request: '' (NetError ''connection refused'')))"
  by (simp add: LastPushes_def LastPushesCtx_def getRequest_def http_NewRequestWithContext_def
      Header_Set_def SetBasicAuth_def Let_def client_demo_def refuse_def)

text \<open>
  Claim C4. \<^verbatim>\<open>LastPushes\<close> never looks at the status code. Whatever the status of the
  response, the body that was read goes to the list decoder as it is, with no decoding
  of a type and a message: the result is the decoded list or the decode error, and it
  is the same when the status is replaced by any other. An error of \<^verbatim>\<open>LastPushes\<close> is
  a transport error or a decode error, and with an HTTP client in place the call does
  not panic.
\<close>

theorem LastPushes_ignores_status:
  "(HTTPClient c = Some do \<and> fst (LastPushes parse decode c n) = [request]
      \<and> do request = Inr \<lparr>StatusCode = status, Body = Inr data\<rparr> \<longrightarrow>
      snd (LastPushes parse decode c n) =
        (case json_Unmarshal_LastPushes parse decode data of
           Inl err \<Rightarrow>
             Err (WrapError (''can't unmarshal response['' @ data @ '']: '') (JSONError err))
         | Inr lastPushes \<Rightarrow> Ok lastPushes))
   \<and> (snd (LastPushes parse decode c n) = Err e \<longrightarrow> isTransportError e \<or> isDecodeError e)
   \<and> (HTTPClient c = Some do \<longrightarrow> snd (LastPushes parse decode c n) \<noteq> Panic)
   \<and> LastPushes parse decode
        (c\<lparr>HTTPClient := Some (\<lambda>r. map_sum id (\<lambda>response. response\<lparr>StatusCode := status'\<rparr>) (do r))\<rparr>) n =
      LastPushes parse decode (c\<lparr>HTTPClient := Some do\<rparr>) n"
proof (intro conjI impI)
  assume h: "HTTPClient c = Some do \<and> fst (LastPushes parse decode c n) = [request]
      \<and> do request = Inr \<lparr>StatusCode = status, Body = Inr data\<rparr>"
  then have c: "HTTPClient c = Some do"
    by simp
  note g = getRequest_cases [of Background c "do", OF _ c]
  from h show "snd (LastPushes parse decode c n) =
        (case json_Unmarshal_LastPushes parse decode data of
           Inl err \<Rightarrow>
             Err (WrapError (''can't unmarshal response['' @ data @ '']: '') (JSONError err))
         | Inr lastPushes \<Rightarrow> Ok lastPushes)"
    by (auto simp: LastPushes_def LastPushesCtx_def g Let_def split: sum.splits)
next
  assume e: "snd (LastPushes parse decode c n) = Err e"
  show "isTransportError e \<or> isDecodeError e"
  proof (cases "HTTPClient c")
    case None
    with e show ?thesis
      by (simp add: LastPushes_def LastPushesCtx_def getRequest_def
          http_NewRequestWithContext_def Let_def)
  next
    case (Some d)
    note g = getRequest_cases [of Background c d, OF _ Some]
    from e show ?thesis
      by (auto simp: LastPushes_def LastPushesCtx_def g Let_def isTransportError_def
          isDecodeError_def json_Unmarshal_LastPushes_def split: sum.splits option.splits)
  qed
next
  assume c: "HTTPClient c = Some do"
  note g = getRequest_cases [of Background c "do", OF _ c]
  show "snd (LastPushes parse decode c n) \<noteq> Panic"
    by (simp add: LastPushes_def LastPushesCtx_def g Let_def split: sum.splits)
next
  show "LastPushes parse decode
        (c\<lparr>HTTPClient := Some (\<lambda>r. map_sum id (\<lambda>response. response\<lparr>StatusCode := status'\<rparr>) (do r))\<rparr>) n =
      LastPushes parse decode (c\<lparr>HTTPClient := Some do\<rparr>) n"
    by (simp add: LastPushes_def LastPushesCtx_def getRequest_def http_NewRequestWithContext_def
        Header_Set_def SetBasicAuth_def Let_def split: sum.splits)
qed

text \<open>
  Claim C4 at the status 500: the body \<open>[]\<close> is decoded as the empty history, and the
  body \<open>oops\<close> gives a decode error.
\<close>

theorem LastPushes_ignores_status_witness:
  "HTTPClient (client_demo (answer 500 ''[]'')) = Some (answer 500 ''[]'')
   \<and> fst (LastPushes parse_demo decode_demo (client_demo (answer 500 ''[]'')) 3) =
       [\<lparr>Method = ''GET'', URL = ''https://push.databox.com/lastpushes?limit=3'',
         Header = [(''User-Agent'', ''databox-go/2.1.0''),
                   (''Accept'', ''application/vnd.databox.v2+json''),
                   (''Content-Type'', ''application/json'')],
         BasicAuth = Some (''token'', ''''), RequestBody = None, Ctx = Background\<rparr>]
   \<and> snd (LastPushes parse_demo decode_demo (client_demo (answer 500 ''[]'')) 3) = Ok []
   \<and> snd (LastPushes parse_demo decode_demo (client_demo (answer 500 ''oops'')) 3) =
       Err (WrapError ''can't unmarshal response[oops]: '' (JSONError SyntaxError))
   \<and> isDecodeError (WrapError ''can't unmarshal response[oops]: '' (JSONError SyntaxError))"
proof -
  let ?c = "client_demo (answer 500 ''[]'')"
  let ?r = "\<lparr>Method = ''GET'', URL = ''https://push.databox.com/lastpushes?limit=3'',
         Header = [(''User-Agent'', ''databox-go/2.1.0''),
                   (''Accept'', ''application/vnd.databox.v2+json''),
                   (''Content-Type'', ''application/json'')],
         BasicAuth = Some (''token'', ''''), RequestBody = None, Ctx = Background\<rparr>"
  have three: "itoa 3 = ''3''"
    by (simp add: itoa_def digits.simps)
  have c: "HTTPClient ?c = Some (answer 500 ''[]'')"
    by (simp add: client_demo_def)
  have sent: "fst (LastPushes parse_demo decode_demo ?c 3) = [?r]"
    by (simp add: LastPushes_demo three)
  have resp: "answer 500 ''[]'' ?r = Inr \<lparr>StatusCode = 500, Body = Inr ''[]''\<rparr>"
    by (simp add: answer_def)
  have dec: "json_Unmarshal_LastPushes parse_demo decode_demo ''[]'' = Inr []"
    by (simp add: json_Unmarshal_LastPushes_def parse_demo_def decode_demo_def)
  have bad: "snd (LastPushes parse_demo decode_demo (client_demo (answer 500 ''oops'')) 3) =
       Err (WrapError ''can't unmarshal response[oops]: '' (JSONError SyntaxError))"
    by (simp add: LastPushes_demo json_Unmarshal_LastPushes_def parse_demo_def)
  from LastPushes_ignores_status [of ?c "answer 500 ''[]''" parse_demo decode_demo 3 ?r 500 "''[]''"]
    c sent resp dec
  have ok: "snd (LastPushes parse_demo decode_demo ?c 3) = Ok []"
    by simp
  from LastPushes_ignores_status [of "client_demo (answer 500 ''oops'')" _ parse_demo decode_demo 3
      _ _ _ "WrapError ''can't unmarshal response[oops]: '' (JSONError SyntaxError)"] bad
  have "isDecodeError (WrapError ''can't unmarshal response[oops]: '' (JSONError SyntaxError))"
    by (simp add: isTransportError_def)
  with c sent ok bad show ?thesis
    by simp
qed

text \<open>
  Claim C5. \<^verbatim>\<open>LastPush\<close> is \<^verbatim>\<open>LastPushes\<close> with the limit 1 followed by taking the
  first element. It sends the same request; when \<^verbatim>\<open>LastPushes\<close> returns a list that is
  not empty, \<^verbatim>\<open>LastPush\<close> returns its first element; when it returns the empty list,
  \<^verbatim>\<open>LastPush\<close> fails with the error \<open>no last push\<close>, which is not a decode error; when
  it fails, \<^verbatim>\<open>LastPush\<close> fails with the same error.
\<close>

theorem LastPush_first:
  "(snd (LastPushes parse decode c 1) = Ok (first # rest) \<longrightarrow>
      snd (LastPush parse decode c) = Ok first)
   \<and> (snd (LastPushes parse decode c 1) = Ok [] \<longrightarrow>
      snd (LastPush parse decode c) = Err (ErrorString ''no last push''))
   \<and> (snd (LastPushes parse decode c 1) = Err e \<longrightarrow> snd (LastPush parse decode c) = Err e)
   \<and> fst (LastPush parse decode c) = fst (LastPushes parse decode c 1)
   \<and> \<not> isDecodeError (ErrorString ''no last push'')"
  by (auto simp: LastPush_def LastPushCtx_def LastPushes_def isDecodeError_def
      split: prod.splits result.splits list.splits)

text \<open>
  Claim C5 at a history of one push, at an empty history and at a connection that is
  refused.
\<close>

theorem LastPush_first_witness:
  "snd (LastPushes parse_demo decode_demo (client_demo (answer 200 ''[{}]'')) 1) = Ok [lastPush_zero]
   \<and> snd (LastPush parse_demo decode_demo (client_demo (answer 200 ''[{}]''))) = Ok lastPush_zero
   \<and> snd (LastPushes parse_demo decode_demo (client_demo (answer 200 ''[]'')) 1) = Ok []
   \<and> snd (LastPush parse_demo decode_demo (client_demo (answer 200 ''[]''))) =
       Err (ErrorString ''no last push'')
   \<and> snd (LastPushes parse_demo decode_demo (client_demo refuse) 1) =
       Err (WrapError ''requesting /lastpushes from API: ''
             (WrapError ''executing HTTP request: '' (NetError ''connection refused'')))
   \<and> snd (LastPush parse_demo decode_demo (client_demo refuse)) =
       Err (WrapError ''requesting /lastpushes from API: ''
             (WrapError ''executing HTTP request: '' (NetError ''connection refused'')))"
proof -
  have one: "snd (LastPushes parse_demo decode_demo (client_demo (answer 200 ''[{}]'')) 1) =
      Ok [lastPush_zero]"
    by (simp add: LastPushes_demo json_Unmarshal_LastPushes_def parse_demo_def decode_demo_def)
  have none: "snd (LastPushes parse_demo decode_demo (client_demo (answer 200 ''[]'')) 1) = Ok []"
    by (simp add: LastPushes_demo json_Unmarshal_LastPushes_def parse_demo_def decode_demo_def)
  note fails = LastPushes_refuse [of parse_demo decode_demo 1]
  from one none fails
    LastPush_first [of parse_demo decode_demo "client_demo (answer 200 ''[{}]'')" lastPush_zero "[]"]
    LastPush_first [of parse_demo decode_demo "client_demo (answer 200 ''[]'')"]
    LastPush_first [of parse_demo decode_demo "client_demo refuse" _ _
      "WrapError ''requesting /lastpushes from API: ''
        (WrapError ''executing HTTP request: '' (NetError ''connection refused''))"]
  show ?thesis
    by simp
qed

section \<open>A response outside 200-299 on the push path\<close>

lemma InsertAll_failed_status:
  assumes c: "HTTPClient c = Some do"
    and sent: "fst (InsertAll parse c ctx kpis forcePush) = [request]"
    and resp: "do request = Inr \<lparr>StatusCode = status, Body = Inr data\<rparr>"
    and status: "status < 200 \<or> 299 < status"
  shows "snd (InsertAll parse c ctx kpis forcePush) =
    (case json_Unmarshal_ResponseStatus parse data of
       Inl err \<Rightarrow>
         Err (WrapError ''sending request: ''
               (WrapError (''can't unmarshal data['' @ data @ '']: '') (JSONError err)))
     | Inr None \<Rightarrow> Panic
     | Inr (Some responseStatus) \<Rightarrow>
         Err (WrapError ''sending request: ''
               (ErrorString (Type responseStatus @ '': '' @ Message responseStatus))))"
proof (cases "serializeKPIs kpis forcePush")
  case (Inl err)
  with sent show ?thesis
    by (simp add: InsertAll_def)
next
  case (Inr payload)
  show ?thesis
  proof (cases "ctx = NilContext")
    case True
    with sent Inr postRequest_nothing_sent [of ctx c parse "''/''" payload] show ?thesis
      by (simp add: InsertAll_sent)
  next
    case False
    note p = postRequest_cases [OF False c, of parse "''/''" payload]
    from sent have "request = \<lparr>Method = ''POST'', URL = apiURL @ ''/'',
           Header = [(''User-Agent'', ''databox-go/2.1.0''),
                     (''Accept'', ''application/vnd.databox.v2+json''),
                     (''Content-Type'', ''application/json'')],
           BasicAuth = Some (PushToken c, ''''), RequestBody = Some payload, Ctx = ctx\<rparr>"
      by (simp add: InsertAll_sent [OF Inr] p Let_def)
    with resp status show ?thesis
      by (auto simp: InsertAll_def Inr p Let_def split: sum.splits option.splits)
  qed
qed

lemma unmarshal_type_message:
  "unmarshalResponseStatus (JObject [(''type'', JString t), (''message'', JString m)])
     \<lparr>ID = '''', Type = '''', Message = ''''\<rparr> = Inr (Some \<lparr>ID = '''', Type = t, Message = m\<rparr>)"
  by (simp add: unmarshalResponseStatus_def storeMember_def toUpper_def)

text \<open>
  A body that is the JSON \<open>null\<close> is stored without error and leaves the pointer nil;
  line 133 then reads a field through it.
\<close>

lemma null_body_panics:
  "snd (Push parse_demo (client_demo (answer 500 ''null'')) (Some kpi_collide)) = Panic"
  by code_simp

text \<open>
  Claim C3, as the code has it. Take a call of \<^verbatim>\<open>InsertAll\<close>, or of \<^verbatim>\<open>PushCtx\<close> on a
  record, whose request was answered with a status outside 200-299 and a body that was
  read. The call never succeeds. If the body is not a JSON text, it fails with a decode
  error, the syntax error. If the body is a JSON text that \<^verbatim>\<open>json.Unmarshal\<close> cannot
  store in a \<^verbatim>\<open>ResponseStatus\<close> (an array, a string, a number, a boolean, or an object
  with a member \<open>id\<close>, \<open>type\<close> or \<open>message\<close> that is neither a string nor \<open>null\<close>), it
  also fails with a decode error, the type error. If the body is stored as a
  \<^verbatim>\<open>ResponseStatus\<close>, the call fails with the one error whose text is the type, a colon
  and a space, and the message, as the service gave them, under the prefix
  \<open>sending request: \<close>. Nothing is said of the body \<open>null\<close>.
\<close>

theorem push_error_response:
  assumes "call = InsertAll parse c ctx kpis forcePush \<or> call = PushCtx parse c ctx (Some kpi)"
    and "HTTPClient c = Some do"
    and "fst call = [request]"
    and "do request = Inr \<lparr>StatusCode = status, Body = Inr data\<rparr>"
    and "status < 200 \<or> 299 < status"
  shows "(parse data = None \<longrightarrow>
      snd call =
        Err (WrapError ''sending request: ''
              (WrapError (''can't unmarshal data['' @ data @ '']: '') (JSONError SyntaxError))))
    \<and> (\<forall>j. parse data = Some j
          \<and> unmarshalResponseStatus j \<lparr>ID = '''', Type = '''', Message = ''''\<rparr> =
              Inl UnmarshalTypeError \<longrightarrow>
      snd call =
        Err (WrapError ''sending request: ''
              (WrapError (''can't unmarshal data['' @ data @ '']: '')
                (JSONError UnmarshalTypeError))))
    \<and> (\<forall>j rs. parse data = Some j
          \<and> unmarshalResponseStatus j \<lparr>ID = '''', Type = '''', Message = ''''\<rparr> =
              Inr (Some rs) \<longrightarrow>
      snd call =
        Err (WrapError ''sending request: '' (ErrorString (Type rs @ '': '' @ Message rs))))
    \<and> (\<forall>t m. parse data = Some (JObject [(''type'', JString t), (''message'', JString m)]) \<longrightarrow>
      snd call = Err (WrapError ''sending request: '' (ErrorString (t @ '': '' @ m))))
    \<and> (\<forall>r. snd call \<noteq> Ok r)"
proof -
  from assms(1) obtain kpis' forcePush' where call: "call = InsertAll parse c ctx kpis' forcePush'"
    by (auto simp: PushCtx_InsertAll)
  from InsertAll_failed_status [OF assms(2) assms(3) [unfolded call] assms(4) assms(5)]
  show ?thesis
    unfolding call
    by (auto simp: json_Unmarshal_ResponseStatus_def unmarshal_type_message
        split: sum.splits option.splits)
qed

text \<open>
  Claim C3 at the status 401 with a body that holds a type and a message: the error of
  the push is made of the two.
\<close>

theorem push_error_response_witness:
  \<open>HTTPClient (client_demo (answer 401 ''{"type":"invalid_token","message":"bad token"}'')) =
     Some (answer 401 ''{"type":"invalid_token","message":"bad token"}'')
   \<and> parse_demo ''{"type":"invalid_token","message":"bad token"}'' =
       Some (JObject [(''type'', JString ''invalid_token''), (''message'', JString ''bad token'')])
   \<and> snd (PushCtx parse_demo
            (client_demo (answer 401 ''{"type":"invalid_token","message":"bad token"}''))
            Background (Some kpi_collide)) =
       Err (WrapError ''sending request: '' (ErrorString ''invalid_token: bad token''))\<close>
proof -
  let ?data = \<open>''{"type":"invalid_token","message":"bad token"}''\<close>
  let ?c = "client_demo (answer 401 ?data)"
  let ?call = "PushCtx parse_demo ?c Background (Some kpi_collide)"
  let ?payload = "JObject [(''data'', JArray [JObject [(''$x'', JNumber (NFloat32 0x3F800000)),
      (''$y'', JNumber (NFloat32 0x40000000))]])]"
  let ?request = "\<lparr>Method = ''POST'', URL = ''https://push.databox.com/'',
      Header = [(''User-Agent'', ''databox-go/2.1.0''),
                (''Accept'', ''application/vnd.databox.v2+json''),
                (''Content-Type'', ''application/json'')],
      BasicAuth = Some (''token'', ''''), RequestBody = Some ?payload, Ctx = Background\<rparr>"
  have c: "HTTPClient ?c = Some (answer 401 ?data)"
    by (simp add: client_demo_def)
  have s: "serializeKPIs [kpi_collide] False = Inr ?payload"
    by (simp add: kpi_collide_def ToJSONData_def serializeKPIs_def json_Marshal_KPIWrap_def
        marshal_payload_def append_slice_def isFinite32_def)
  have sent: "fst ?call = [?request]"
    using InsertAll_sent [OF s, of parse_demo ?c Background]
      postRequest_sent [of Background ?c "answer 401 ?data" parse_demo "''/''" ?payload] c
    by (simp add: PushCtx_InsertAll apiURL_def client_demo_def)
  have resp: "answer 401 ?data ?request = Inr \<lparr>StatusCode = 401, Body = Inr ?data\<rparr>"
    by (simp add: answer_def)
  have p: "parse_demo ?data =
      Some (JObject [(''type'', JString ''invalid_token''), (''message'', JString ''bad token'')])"
    by (simp add: parse_demo_def)
  from push_error_response [of ?call parse_demo ?c Background _ _ kpi_collide
      "answer 401 ?data" ?request 401 ?data, OF _ c sent resp] p
  have "snd ?call = Err (WrapError ''sending request: ''
      (ErrorString (''invalid_token'' @ '': '' @ ''bad token'')))"
    by simp
  with c p show ?thesis
    by simp
qed

text \<open>
  Claim C3 as it was stated fails at the status 500 with the body \<open>[]\<close>: the body is a
  JSON text, and the push fails with a decode error, not with an error made of a type
  and a message.
\<close>

theorem push_error_response_counterexample:
  "parse_demo ''[]'' = Some (JArray [])
   \<and> snd (Push parse_demo (client_demo (answer 500 ''[]'')) (Some kpi_collide)) =
       Err (WrapError ''sending request: ''
             (WrapError ''can't unmarshal data[[]]: '' (JSONError UnmarshalTypeError)))
   \<and> isDecodeError
       (WrapError ''sending request: ''
         (WrapError ''can't unmarshal data[[]]: '' (JSONError UnmarshalTypeError)))"
  by code_simp

end
